theory Spec2Isabelle
  imports Complex_Main
begin

section \<open>Numbers\<close>

text \<open>
  The program computes with JavaScript numbers. The spec states its formulas in decimal
  arithmetic, and so does this development: a finite number is a \<^typ>\<open>real\<close>, and the
  binary rounding error of IEEE doubles is not modelled. The values that are not finite
  numbers are made explicit where the code can produce them: an absent field
  (\<open>undefined\<close>, \<open>null\<close>) and the \<open>NaN\<close> of a failed \<open>parseFloat\<close> are \<open>None\<close>, and the
  one division the code does not guard returns an option.
\<close>

text \<open>\<open>Math.round\<close>: the nearest integer, a tie going up.\<close>

definition js_round :: "real \<Rightarrow> real" where
  "js_round x = of_int \<lfloor>x + 1 / 2\<rfloor>"

text \<open>
  \<open>Calculator.round(num, decimals)\<close>:
  \<^verbatim>\<open>const factor = Math.pow(10, decimals); return Math.round(num * factor) / factor;\<close>
\<close>

definition round_num :: "real \<Rightarrow> nat \<Rightarrow> real" where
  "round_num num decimals = (let factor = 10 ^ decimals in js_round (num * factor) / factor)"

text \<open>\<open>a || b\<close> on numbers: \<open>0\<close> is falsy.\<close>

definition js_or :: "real \<Rightarrow> real \<Rightarrow> real" where
  "js_or a b = (if a \<noteq> 0 then a else b)"

text \<open>\<open>a || b\<close> where \<open>a\<close> is a number that may be absent: absent and \<open>0\<close> are falsy.\<close>

definition or_default :: "real option \<Rightarrow> real \<Rightarrow> real" where
  "or_default a b = (case a of None \<Rightarrow> b | Some x \<Rightarrow> js_or x b)"

section \<open>Data model\<close>

record holding =
  holding_id :: string
  code :: string
  name :: string
  shares :: real
  costPrice :: real
  lastNav :: "real option"
  dayChange :: "real option"
  estimateTime :: "string option"

record transaction =
  ttype :: string
  tshares :: real
  amount :: real

section \<open>Calculator\<close>

record profit_info =
  costAmount :: real
  currentAmount :: real
  profit :: real
  profitRate :: real

definition calculateProfit :: "holding \<Rightarrow> real \<Rightarrow> profit_info" where
  "calculateProfit h currentNav =
     (let cost = shares h * costPrice h;
          current = shares h * currentNav;
          gain = current - cost;
          rate = (if cost > 0 then gain / cost * 100 else 0)
      in \<lparr>costAmount = round_num cost 2,
          currentAmount = round_num current 2,
          profit = round_num gain 2,
          profitRate = round_num rate 2\<rparr>)"

definition calculateDayProfit :: "holding \<Rightarrow> real \<Rightarrow> real" where
  "calculateDayProfit h dayChangeRate =
     (let current = shares h * or_default (lastNav h) (costPrice h);
          dayProfit = current * (dayChangeRate / 100)
      in round_num dayProfit 2)"

record summary =
  totalCost :: real
  totalCurrent :: real
  totalProfit :: real
  totalProfitRate :: real
  totalDayProfit :: real
  dayProfitRate :: real
  hasDayProfit :: bool

text \<open>
  The accumulator of the \<open>forEach\<close> in \<open>calculateSummary\<close>: the four \<open>let\<close> variables
  \<open>totalCost\<close>, \<open>totalCurrent\<close>, \<open>totalDayProfit\<close>, \<open>hasDayProfit\<close>, in this order.
\<close>

type_synonym totals = "real \<times> real \<times> real \<times> bool"

definition summary_step :: "totals \<Rightarrow> holding \<Rightarrow> totals" where
  "summary_step acc h =
     (case acc of (cost, current, day, has) \<Rightarrow>
        let p = calculateProfit h (or_default (lastNav h) (costPrice h));
            cost1 = cost + costAmount p;
            current1 = current + currentAmount p
        in (case dayChange h of
              Some d \<Rightarrow> (cost1, current1, day + calculateDayProfit h d, True)
            | None \<Rightarrow> (cost1, current1, day, has)))"

definition calculateSummary :: "holding list \<Rightarrow> summary" where
  "calculateSummary hs =
     (case foldl summary_step (0, 0, 0, False) hs of (cost, current, day, has) \<Rightarrow>
        let gain = current - cost;
            rate = (if cost > 0 then gain / cost * 100 else 0);
            dayRate = (if current > 0 then day / current * 100 else 0)
        in \<lparr>totalCost = round_num cost 2,
            totalCurrent = round_num current 2,
            totalProfit = round_num gain 2,
            totalProfitRate = round_num rate 2,
            totalDayProfit = round_num day 2,
            dayProfitRate = round_num dayRate 2,
            hasDayProfit = has\<rparr>)"



section \<open>Valuation provider client\<close>

text \<open>
  The client is the \<open>FundAPI\<close> object with the two-path fetch (\<open>fetchRealTimeEstimate\<close>,
  then \<open>fetchLatestNetWorth\<close>). A request injects a script element and waits for its
  \<open>onload\<close> or \<open>onerror\<close> event or for its own timer, whichever comes first. What the
  network does is the input of the model: for each request, the event that the script
  element raises and the number of milliseconds after dispatch at which it does, or
  that it never raises one. An event that comes at the deadline or later loses to the
  timer.
\<close>

datatype 'a arrival = OnLoad real 'a | OnError real | Silent

record estimate =
  ecode :: string
  ename :: string
  estimateNetWorth :: real
  dayGrowth :: real
  netWorth :: real
  time :: string

datatype fetch_error = RequestTimeout | NoNetWorthData | ApiRequestFailed

text \<open>
  The object the live script leaves in \<open>window['jsonpgz_' + fundCode]\<close>. A numeric field
  holds what \<open>parseFloat\<close> makes of it, \<open>None\<close> for \<open>NaN\<close>; a text field is \<open>None\<close> when
  it is missing.
\<close>

record live_data =
  live_name :: "string option"
  gsz :: "real option"
  gszzl :: "real option"
  dwjz :: "real option"
  gztime :: "string option"

text \<open>\<open>s || ''\<close> on a text that may be missing.\<close>

definition text_or_empty :: "string option \<Rightarrow> string" where
  "text_or_empty s = (case s of None \<Rightarrow> [] | Some v \<Rightarrow> v)"

text \<open>
  \<open>fetchRealTimeEstimate\<close>: the timer of 3000 ms resolves with \<open>null\<close>, \<open>onerror\<close> resolves
  with \<open>null\<close>, and \<open>onload\<close> resolves with the estimate when the global is set (the
  argument of \<open>OnLoad\<close> is \<open>None\<close> when it is not) and with \<open>null\<close> otherwise. The promise
  never rejects, and it always settles: no read in the \<open>onload\<close> handler can raise.
\<close>

definition fetchRealTimeEstimate :: "live_data option arrival \<Rightarrow> string \<Rightarrow> estimate option" where
  "fetchRealTimeEstimate a fundCode =
     (case a of
        OnLoad t w \<Rightarrow>
          if t < 3000 then
            (case w of
               Some d \<Rightarrow>
                 Some \<lparr>ecode = fundCode,
                       ename = text_or_empty (live_name d),
                       estimateNetWorth = or_default (gsz d) 0,
                       dayGrowth = or_default (gszzl d) 0,
                       netWorth = or_default (dwjz d) 0,
                       time = text_or_empty (gztime d)\<rparr>
             | None \<Rightarrow> None)
          else None
      | OnError t \<Rightarrow> None
      | Silent \<Rightarrow> None)"

text \<open>
  The globals of the detail script as the \<open>onload\<close> handler of the request finds them:
  \<open>Data_netWorthTrend\<close> (\<open>None\<close> when it is undefined or not an array) and \<open>fS_name\<close>.
  An element of the array is \<open>None\<close> when it is \<open>null\<close> or \<open>undefined\<close>; otherwise it is
  a point, which holds what \<open>parseFloat\<close> makes of its fields \<open>y\<close> and \<open>equityReturn\<close>.
\<close>

record trend_point =
  trend_y :: "real option"
  equityReturn :: "real option"

record detail_data =
  Data_netWorthTrend :: "trend_point option list option"
  fS_name :: "string option"

text \<open>
  A promise is \<open>Some\<close> of its outcome once it has settled (\<open>Inl\<close> the rejection), and
  \<open>None\<close> when it never settles.

  \<open>fetchLatestNetWorth\<close>: the timer of \<open>config.timeout\<close> ms rejects, \<open>onerror\<close> rejects,
  and \<open>onload\<close> resolves with the last point of a non-empty trend and rejects without a
  trend. The \<open>onload\<close> handler first calls \<open>cleanup()\<close>, which clears the timer, and then
  reads \<open>latest.y\<close>. When the last element of the trend is \<open>null\<close> or \<open>undefined\<close> that
  read raises inside the handler: nothing resolves or rejects the promise afterwards,
  and it stays pending.
\<close>

definition fetchLatestNetWorth ::
    "real \<Rightarrow> detail_data arrival \<Rightarrow> string \<Rightarrow> (fetch_error + estimate) option" where
  "fetchLatestNetWorth timeout a fundCode =
     (case a of
        OnLoad t g \<Rightarrow>
          if t < timeout then
            (case Data_netWorthTrend g of
               Some trend \<Rightarrow>
                 if trend \<noteq> [] then
                   (case last trend of
                      Some latest \<Rightarrow>
                        Some (Inr \<lparr>ecode = fundCode,
                                   ename = text_or_empty (fS_name g),
                                   estimateNetWorth = or_default (trend_y latest) 0,
                                   dayGrowth = or_default (equityReturn latest) 0,
                                   netWorth = or_default (trend_y latest) 0,
                                   time = []\<rparr>)
                    | None \<Rightarrow> None)
                 else Some (Inl NoNetWorthData)
             | None \<Rightarrow> Some (Inl NoNetWorthData))
          else Some (Inl RequestTimeout)
      | OnError t \<Rightarrow> if t < timeout then Some (Inl ApiRequestFailed) else Some (Inl RequestTimeout)
      | Silent \<Rightarrow> Some (Inl RequestTimeout))"

text \<open>\<open>FundAPI.config.timeout\<close>.\<close>

definition config_timeout :: real where
  "config_timeout = 10000"

text \<open>What the network does to the two requests that one \<open>getFundEstimate\<close> may send.\<close>

record request_io =
  live :: "live_data option arrival"
  detail :: "detail_data arrival"

definition getFundEstimate :: "request_io \<Rightarrow> string \<Rightarrow> (fetch_error + estimate) option" where
  "getFundEstimate io fundCode =
     (case fetchRealTimeEstimate (live io) fundCode of
        Some estimateResult \<Rightarrow> Some (Inr estimateResult)
      | None \<Rightarrow> fetchLatestNetWorth config_timeout (detail io) fundCode)"

subsection \<open>Promises\<close>

text \<open>
  \<open>Promise.all\<close> over promises that have settled rejects when one of them rejected and
  otherwise resolves with all the values.
\<close>

fun promise_all :: "('e + 'a) list \<Rightarrow> 'e + 'a list" where
  "promise_all [] = Inr []"
| "promise_all (p # ps) =
     (case p of
        Inl e \<Rightarrow> Inl e
      | Inr v \<Rightarrow> (case promise_all ps of Inl e \<Rightarrow> Inl e | Inr vs \<Rightarrow> Inr (v # vs)))"

datatype ('e, 'a) settled = Fulfilled 'a | Rejected 'e

text \<open>
  \<open>Promise.allSettled\<close> never rejects; it resolves, with the outcome of every promise,
  once all of them have settled, and stays pending when one of them does.
\<close>

fun allSettled :: "('e + 'a) option list \<Rightarrow> ('e, 'a) settled list option" where
  "allSettled [] = Some []"
| "allSettled (p # ps) =
     (case p of
        None \<Rightarrow> None
      | Some r \<Rightarrow>
          (case allSettled ps of
             None \<Rightarrow> None
           | Some rs \<Rightarrow> Some ((case r of Inl e \<Rightarrow> Rejected e | Inr v \<Rightarrow> Fulfilled v) # rs)))"

text \<open>\<open>.catch(err => { console.error(...); return null; })\<close>\<close>

definition catch_null :: "'e + 'a \<Rightarrow> 'e + 'a option" where
  "catch_null p = (case p of Inl err \<Rightarrow> Inr None | Inr v \<Rightarrow> Inr (Some v))"

text \<open>\<open>results.filter(r => r !== null)\<close>\<close>

fun filter_not_null :: "'a option list \<Rightarrow> 'a list" where
  "filter_not_null [] = []"
| "filter_not_null (None # rs) = filter_not_null rs"
| "filter_not_null (Some r # rs) = r # filter_not_null rs"

text \<open>
  \<open>getBatchFundEstimate\<close>. Its first argument is \<open>this.getFundEstimate\<close>: what the call for
  the code at position \<open>i\<close> of the list settles to. The repository has two clients with the
  same batch function, and the theorems about it hold for both.
\<close>

definition getBatchFundEstimate ::
    "(nat \<Rightarrow> string \<Rightarrow> 'e + 'a) \<Rightarrow> string list \<Rightarrow> 'e + 'a list" where
  "getBatchFundEstimate fetch fundCodes =
     (let promises = map (\<lambda>(i, c). catch_null (fetch i c)) (enumerate 0 fundCodes)
      in case promise_all promises of
           Inl error \<Rightarrow> Inl error
         | Inr results \<Rightarrow> Inr (filter_not_null results))"

section \<open>Valuation cache\<close>













section \<open>Refresh scheduler\<close>

record app_state =
  holdings :: "holding list"
  isLoading :: bool
  lastRefreshTime :: real
  refreshInterval :: real

text \<open>
  What a refresh does besides changing \<open>AppState\<close>, in the order it does it: the calls to
  the presentation layer, to the holdings store and to the provider.
\<close>

datatype notice = DataUpdated | RefreshFailed

datatype effect =
    UpdateSummaryCard summary
  | RefreshBtnRotating bool
  | Request string
  | SaveHoldings "holding list"
  | RenderHoldings "holding list"
  | Toast notice
  | ConsoleError

text \<open>
  \<open>setRefreshing\<close> writes the flag and then toggles a class of the refresh button, which
  the page provides.
\<close>

definition setRefreshing :: "bool \<Rightarrow> app_state \<Rightarrow> app_state \<times> effect list" where
  "setRefreshing isRefreshing st = (st\<lparr>isLoading := isRefreshing\<rparr>, [RefreshBtnRotating isRefreshing])"

text \<open>The three assignments to the holding that \<open>find\<close> returned.\<close>

definition update_holding :: "estimate \<Rightarrow> holding \<Rightarrow> holding" where
  "update_holding est h =
     h\<lparr>lastNav := Some (js_or (netWorth est) (or_default (lastNav h) (costPrice h))),
       dayChange := Some (js_or (dayGrowth est) 0),
       estimateTime := Some (time est)\<rparr>"

text \<open>
  \<open>holdings.find(p)\<close> followed by assignments to the object found: the first holding
  that satisfies \<open>p\<close> is changed in place, and \<open>None\<close> says that \<open>find\<close> returned
  \<open>undefined\<close>.
\<close>

fun find_update :: "(holding \<Rightarrow> bool) \<Rightarrow> (holding \<Rightarrow> holding) \<Rightarrow> holding list \<Rightarrow> holding list option" where
  "find_update p f [] = None"
| "find_update p f (h # hs) =
     (if p h then Some (f h # hs)
      else (case find_update p f hs of None \<Rightarrow> None | Some hs' \<Rightarrow> Some (h # hs')))"

text \<open>
  The body of \<open>results.forEach\<close>, on the holdings and the variable \<open>updated\<close>. A fulfilled
  value is an estimate object, which is truthy.
\<close>

definition merge_result ::
    "holding list \<times> bool \<Rightarrow> (fetch_error, estimate) settled \<Rightarrow> holding list \<times> bool" where
  "merge_result acc result =
     (case acc of (hs, updated) \<Rightarrow>
        (case result of
           Fulfilled est \<Rightarrow>
             (case find_update (\<lambda>h. code h = ecode est) (update_holding est) hs of
                Some hs' \<Rightarrow> (hs', True)
              | None \<Rightarrow> (hs, updated))
         | Rejected e \<Rightarrow> (hs, updated)))"

text \<open>
  \<open>refreshNetValues\<close> is an async function with one \<open>await\<close>. \<open>refresh_begin\<close> is the part
  that runs synchronously when the function is called: it either returns or reaches the
  \<open>await\<close> with the requests sent. \<open>refresh_settle\<close> is the part that runs when the batch
  has settled, with the \<open>catch\<close> and \<open>finally\<close> blocks.
\<close>

datatype progress =
    Returned app_state "effect list"
  | Awaiting app_state "string list" "effect list"

definition refresh_begin :: "real \<Rightarrow> app_state \<Rightarrow> progress" where
  "refresh_begin now st =
     (if isLoading st then Returned st []
      else
        let shouldFetch =
              (lastRefreshTime st = 0 \<or> now - lastRefreshTime st \<ge> refreshInterval st);
            shown = [UpdateSummaryCard (calculateSummary (holdings st))]
        in if \<not> shouldFetch then Returned st shown
           else
             (case setRefreshing True st of (st1, on) \<Rightarrow>
                let codes = map code (holdings st1)
                in if codes = [] then
                     (case setRefreshing False st1 of (st2, off) \<Rightarrow>
                        Returned st2 (shown @ on @ off))
                   else Awaiting st1 codes (shown @ on @ map Request codes)))"

text \<open>
  \<open>render_throws\<close> tells whether \<open>renderHoldings()\<close> raises an exception on the holdings
  it is given (it formats their fields); that is the exception a refresh can meet inside
  its \<open>try\<close> block.
\<close>

definition refresh_settle ::
    "(holding list \<Rightarrow> bool) \<Rightarrow> real \<Rightarrow> (fetch_error, estimate) settled list \<Rightarrow> app_state
     \<Rightarrow> app_state \<times> effect list" where
  "refresh_settle render_throws now results st =
     (case foldl merge_result (holdings st, False) results of (hs, updated) \<Rightarrow>
        let st1 = st\<lparr>holdings := hs\<rparr>;
            st2 = (if updated then st1\<lparr>lastRefreshTime := now\<rparr> else st1);
            saved = (if updated then [SaveHoldings hs] else []);
            tried =
              (if render_throws hs then [ConsoleError, Toast RefreshFailed]
               else [RenderHoldings hs, UpdateSummaryCard (calculateSummary hs)]
                    @ (if updated then [Toast DataUpdated] else []))
        in (case setRefreshing False st2 of (st3, off) \<Rightarrow> (st3, saved @ tried @ off)))"

text \<open>
  The whole call: \<open>net i\<close> is what the network does to the request for the holding at
  position \<open>i\<close>. The call is \<open>Finished\<close> when the async function has run to its end,
  and \<open>Stuck\<close> when the batch it awaits never settles: then the function never resumes,
  its \<open>finally\<close> block never runs, and \<open>AppState\<close> stays as the synchronous part left it.
  Both carry the state of \<open>AppState\<close> afterwards and what the call did.
\<close>

datatype completion =
    Finished app_state "effect list"
  | Stuck app_state "effect list"

fun final_state :: "completion \<Rightarrow> app_state" where
  "final_state (Finished st evs) = st"
| "final_state (Stuck st evs) = st"

definition refreshNetValues ::
    "(nat \<Rightarrow> request_io) \<Rightarrow> (holding list \<Rightarrow> bool) \<Rightarrow> real \<Rightarrow> app_state \<Rightarrow> completion" where
  "refreshNetValues net render_throws now st =
     (case refresh_begin now st of
        Returned st1 evs \<Rightarrow> Finished st1 evs
      | Awaiting st1 codes sent \<Rightarrow>
          (case allSettled (map (\<lambda>(i, c). getFundEstimate (net i) c) (enumerate 0 codes)) of
             None \<Rightarrow> Stuck st1 sent
           | Some results \<Rightarrow>
               (case refresh_settle render_throws now results st1 of
                  (st2, evs) \<Rightarrow> Finished st2 (sent @ evs))))"

section \<open>Auxiliary definitions\<close>

text \<open>
  What the loop over the results does to one holding when the holdings carry pairwise
  different codes: a fulfilled result with the holding's code updates it.
\<close>

definition apply_result :: "holding \<Rightarrow> (fetch_error, estimate) settled \<Rightarrow> holding" where
  "apply_result h r =
     (case r of Fulfilled e \<Rightarrow> if code h = ecode e then update_holding e h else h
              | Rejected x \<Rightarrow> h)"

text \<open>
  The entry of \<open>Promise.allSettled\<close> for a promise that has settled. The last case is
  never used: the batch has no entries while a promise is pending.
\<close>

definition settled_result :: "(fetch_error + estimate) option \<Rightarrow> (fetch_error, estimate) settled" where
  "settled_result p =
     (case p of
        Some (Inr v) \<Rightarrow> Fulfilled v
      | Some (Inl e) \<Rightarrow> Rejected e
      | None \<Rightarrow> Rejected RequestTimeout)"

text \<open>The settled batch that \<open>refreshNetValues\<close> awaits, when every request settles.\<close>

definition batch_results ::
    "(nat \<Rightarrow> request_io) \<Rightarrow> holding list \<Rightarrow> (fetch_error, estimate) settled list" where
  "batch_results net hs =
     map (\<lambda>(i, c). settled_result (getFundEstimate (net i) c)) (enumerate 0 (map code hs))"

section \<open>Example inputs\<close>

definition holding_A :: holding where
  "holding_A = \<lparr>holding_id = ''id_1'', code = ''000001'', name = ''A'', shares = 100,
      costPrice = 10, lastNav = None, dayChange = None, estimateTime = None\<rparr>"

definition holding_B :: holding where
  "holding_B = \<lparr>holding_id = ''id_2'', code = ''000002'', name = ''B'', shares = 50,
      costPrice = 2, lastNav = Some 2.1, dayChange = Some 0.5,
      estimateTime = Some ''2024-01-02 15:00''\<rparr>"

text \<open>A second holding of the instrument of \<open>holding_A\<close>.\<close>

definition holding_A2 :: holding where
  "holding_A2 = \<lparr>holding_id = ''id_3'', code = ''000001'', name = ''A'', shares = 20,
      costPrice = 11, lastNav = None, dayChange = None, estimateTime = None\<rparr>"

definition holding_fraction :: holding where
  "holding_fraction = \<lparr>holding_id = ''id_4'', code = ''000004'', name = ''D'', shares = 100.004,
      costPrice = 10, lastNav = None, dayChange = None, estimateTime = None\<rparr>"

definition holding_fine_price :: holding where
  "holding_fine_price = \<lparr>holding_id = ''id_5'', code = ''000005'', name = ''E'', shares = 100,
      costPrice = 1.23456, lastNav = None, dayChange = None, estimateTime = None\<rparr>"


definition buy_50 :: transaction where
  "buy_50 = \<lparr>ttype = ''buy'', tshares = 50, amount = 600\<rparr>"

definition sell_50 :: transaction where
  "sell_50 = \<lparr>ttype = ''sell'', tshares = 50, amount = 600\<rparr>"

definition sell_500 :: transaction where
  "sell_500 = \<lparr>ttype = ''sell'', tshares = 500, amount = 6000\<rparr>"

text \<open>The live path answers after 120 ms, without a parsable day growth.\<close>

definition io_live :: request_io where
  "io_live = \<lparr>live = OnLoad 120 (Some \<lparr>live_name = Some ''A'', gsz = Some 12.5, gszzl = None,
                  dwjz = Some 12.4, gztime = Some ''2024-01-03 14:30''\<rparr>),
              detail = Silent\<rparr>"

definition estimate_A :: estimate where
  "estimate_A = \<lparr>ecode = ''000001'', ename = ''A'', estimateNetWorth = 12.5, dayGrowth = 0,
      netWorth = 12.4, time = ''2024-01-03 14:30''\<rparr>"

text \<open>Neither path ever answers.\<close>

definition io_timeout :: request_io where
  "io_timeout = \<lparr>live = Silent, detail = Silent\<rparr>"

text \<open>The live script loads without data, the detail script loads a trend of two points.\<close>

definition io_settled :: request_io where
  "io_settled = \<lparr>live = OnLoad 200 None,
      detail = OnLoad 900 \<lparr>Data_netWorthTrend =
                  Some [Some \<lparr>trend_y = Some 1.5, equityReturn = Some 0.3\<rparr>,
                        Some \<lparr>trend_y = Some 1.6, equityReturn = Some 0.7\<rparr>],
                fS_name = Some ''B''\<rparr>\<rparr>"

definition estimate_B :: estimate where
  "estimate_B = \<lparr>ecode = ''000002'', ename = ''B'', estimateNetWorth = 1.6, dayGrowth = 0.7,
      netWorth = 1.6, time = []\<rparr>"

text \<open>The live script loads too late, the detail script loads without a trend.\<close>

definition io_no_data :: request_io where
  "io_no_data = \<lparr>live = OnLoad 3500 (Some \<lparr>live_name = None, gsz = None, gszzl = None,
                     dwjz = None, gztime = None\<rparr>),
                 detail = OnLoad 40 \<lparr>Data_netWorthTrend = None, fS_name = None\<rparr>\<rparr>"

text \<open>
  The live script loads in time and leaves an object without a single parsable field;
  the detail script would load the trend of \<open>io_settled\<close>.
\<close>

definition io_malformed_live :: request_io where
  "io_malformed_live = \<lparr>live = OnLoad 120 (Some \<lparr>live_name = None, gsz = None, gszzl = None,
                           dwjz = None, gztime = None\<rparr>),
      detail = OnLoad 900 \<lparr>Data_netWorthTrend =
                  Some [Some \<lparr>trend_y = Some 1.5, equityReturn = Some 0.3\<rparr>,
                        Some \<lparr>trend_y = Some 1.6, equityReturn = Some 0.7\<rparr>],
                fS_name = Some ''B''\<rparr>\<rparr>"

definition estimate_zero :: estimate where
  "estimate_zero = \<lparr>ecode = ''000002'', ename = [], estimateNetWorth = 0, dayGrowth = 0,
      netWorth = 0, time = []\<rparr>"

text \<open>
  The live script loads without data, and the detail script loads in time a trend whose
  last element is \<open>null\<close>.
\<close>

definition io_null_point :: request_io where
  "io_null_point = \<lparr>live = OnLoad 200 None,
      detail = OnLoad 900 \<lparr>Data_netWorthTrend =
                  Some [Some \<lparr>trend_y = Some 1.5, equityReturn = Some 0.3\<rparr>, None],
                fS_name = Some ''B''\<rparr>\<rparr>"

text \<open>Both scripts fail to load.\<close>

definition io_error :: request_io where
  "io_error = \<lparr>live = OnError 30, detail = OnError 50\<rparr>"

definition net_first_ok :: "nat \<Rightarrow> request_io" where
  "net_first_ok i = (if i = 0 then io_live else io_timeout)"

definition net_second_ok :: "nat \<Rightarrow> request_io" where
  "net_second_ok i = (if i = 0 then io_timeout else io_live)"

definition net_second_hangs :: "nat \<Rightarrow> request_io" where
  "net_second_hangs i = (if i = 0 then io_live else io_null_point)"

definition net_all_ok :: "nat \<Rightarrow> request_io" where
  "net_all_ok i = io_live"

definition net_all_timeout :: "nat \<Rightarrow> request_io" where
  "net_all_timeout i = io_timeout"

text \<open>What the calls of \<open>getFundEstimate\<close> settle to on these networks; they all settle.\<close>

definition fetch_first_ok :: "nat \<Rightarrow> string \<Rightarrow> fetch_error + estimate" where
  "fetch_first_ok i c =
     (case getFundEstimate (net_first_ok i) c of Some r \<Rightarrow> r | None \<Rightarrow> Inl RequestTimeout)"

definition fetch_all_timeout :: "nat \<Rightarrow> string \<Rightarrow> fetch_error + estimate" where
  "fetch_all_timeout i c =
     (case getFundEstimate (net_all_timeout i) c of Some r \<Rightarrow> r | None \<Rightarrow> Inl RequestTimeout)"

definition render_ok :: "holding list \<Rightarrow> bool" where
  "render_ok hs = False"

definition render_fails :: "holding list \<Rightarrow> bool" where
  "render_fails hs = True"

definition state_two :: app_state where
  "state_two = \<lparr>holdings = [holding_A, holding_B], isLoading = False, lastRefreshTime = 0,
      refreshInterval = 300000\<rparr>"

definition state_loading :: app_state where
  "state_loading = \<lparr>holdings = [holding_A, holding_B], isLoading = True, lastRefreshTime = 0,
      refreshInterval = 300000\<rparr>"

definition state_empty :: app_state where
  "state_empty = \<lparr>holdings = [], isLoading = False, lastRefreshTime = 0,
      refreshInterval = 300000\<rparr>"

definition state_duplicate :: app_state where
  "state_duplicate = \<lparr>holdings = [holding_A, holding_A2], isLoading = False,
      lastRefreshTime = 0, refreshInterval = 300000\<rparr>"

lemmas example_defs = holding_A_def holding_B_def holding_A2_def holding_fraction_def
  holding_fine_price_def
  buy_50_def sell_50_def sell_500_def io_live_def estimate_A_def io_timeout_def io_settled_def
  estimate_B_def io_no_data_def io_error_def io_malformed_live_def estimate_zero_def
  io_null_point_def net_first_ok_def net_second_ok_def net_second_hangs_def net_all_ok_def
  net_all_timeout_def fetch_first_ok_def fetch_all_timeout_def render_ok_def render_fails_def
  state_two_def state_loading_def state_empty_def state_duplicate_def

lemmas client_defs = getFundEstimate_def fetchRealTimeEstimate_def fetchLatestNetWorth_def
  config_timeout_def text_or_empty_def or_default_def js_or_def

lemmas refresh_defs = refreshNetValues_def refresh_begin_def refresh_settle_def setRefreshing_def
  merge_result_def update_holding_def enumerate_eq_zip Let_def

section \<open>Rounding lemmas\<close>





section \<open>Profit of one holding\<close>



section \<open>Transactions\<close>






section \<open>Fetching one valuation\<close>

lemma live_none_iff:
  "fetchRealTimeEstimate a c = None \<longleftrightarrow>
     (a = Silent \<or> (\<exists>t. a = OnError t) \<or> (\<exists>t w. a = OnLoad t w \<and> (3000 \<le> t \<or> w = None)))"
  by (cases a) (auto simp: fetchRealTimeEstimate_def split: option.splits)

lemma getFundEstimate_code: "getFundEstimate io c = Some (Inr e) \<Longrightarrow> ecode e = c"
  by (auto simp: getFundEstimate_def fetchRealTimeEstimate_def fetchLatestNetWorth_def
           split: option.splits arrival.splits if_splits)

text \<open>
  C5 (as amended). For every instrument code, \<open>getFundEstimate\<close> first tries the live
  estimate with a timeout of 3 s. When the live script loads in time and leaves a live
  object, that object is the result, also when its fields are missing or malformed: each
  numeric field that does not parse reads as \<open>0\<close>, and there is no fallback. When the
  live path yields no data (the timer fires first, the script fails to load, or it loads
  without leaving the live object) the call does not fail: its outcome is that of the
  settled net value path with its timeout of 10 s. On that path a timeout is reported as
  the hard error \<open>RequestTimeout\<close>, a failed load as \<open>ApiRequestFailed\<close>, and a load
  after which there is no trend array, or an empty one, as \<open>NoNetWorthData\<close>; a load in
  time of a trend whose last element is a point resolves with that point, its fields
  read the same way.
\<close>

theorem getFundEstimate_live_then_fallback:
  "(\<forall>t d. live io = OnLoad t (Some d) \<and> t < 3000 \<longrightarrow>
      getFundEstimate io c =
        Some (Inr \<lparr>ecode = c, ename = text_or_empty (live_name d),
                   estimateNetWorth = or_default (gsz d) 0, dayGrowth = or_default (gszzl d) 0,
                   netWorth = or_default (dwjz d) 0, time = text_or_empty (gztime d)\<rparr>))
   \<and> (live io = Silent \<or> (\<exists>t. live io = OnError t)
        \<or> (\<exists>t w. live io = OnLoad t w \<and> (3000 \<le> t \<or> w = None)) \<longrightarrow>
      getFundEstimate io c = fetchLatestNetWorth 10000 (detail io) c)
   \<and> (detail io = Silent \<or> (\<exists>t. detail io = OnLoad t g \<and> 10000 \<le> t)
        \<or> (\<exists>t. detail io = OnError t \<and> 10000 \<le> t) \<longrightarrow>
      fetchLatestNetWorth 10000 (detail io) c = Some (Inl RequestTimeout))
   \<and> ((\<exists>t. detail io = OnLoad t g \<and> t < 10000)
        \<and> (Data_netWorthTrend g = None \<or> Data_netWorthTrend g = Some []) \<longrightarrow>
      fetchLatestNetWorth 10000 (detail io) c = Some (Inl NoNetWorthData))
   \<and> ((\<exists>t. detail io = OnError t \<and> t < 10000) \<longrightarrow>
      fetchLatestNetWorth 10000 (detail io) c = Some (Inl ApiRequestFailed))
   \<and> (\<forall>t ps p. detail io = OnLoad t g \<and> t < 10000
          \<and> Data_netWorthTrend g = Some (ps @ [Some p]) \<longrightarrow>
      fetchLatestNetWorth 10000 (detail io) c =
        Some (Inr \<lparr>ecode = c, ename = text_or_empty (fS_name g),
                   estimateNetWorth = or_default (trend_y p) 0,
                   dayGrowth = or_default (equityReturn p) 0,
                   netWorth = or_default (trend_y p) 0, time = []\<rparr>))"
proof -
  have a: "getFundEstimate io c =
        Some (Inr \<lparr>ecode = c, ename = text_or_empty (live_name d),
                   estimateNetWorth = or_default (gsz d) 0, dayGrowth = or_default (gszzl d) 0,
                   netWorth = or_default (dwjz d) 0, time = text_or_empty (gztime d)\<rparr>)"
    if "live io = OnLoad t (Some d) \<and> t < 3000" for t d
    using that by (simp add: getFundEstimate_def fetchRealTimeEstimate_def)
  have b: "getFundEstimate io c = fetchLatestNetWorth 10000 (detail io) c"
    if "live io = Silent \<or> (\<exists>t. live io = OnError t)
        \<or> (\<exists>t w. live io = OnLoad t w \<and> (3000 \<le> t \<or> w = None))"
  proof -
    from that have "fetchRealTimeEstimate (live io) c = None"
      by (simp only: live_none_iff)
    then show ?thesis by (simp add: getFundEstimate_def config_timeout_def)
  qed
  have c1: "fetchLatestNetWorth 10000 (detail io) c = Some (Inl RequestTimeout)"
    if "detail io = Silent \<or> (\<exists>t. detail io = OnLoad t g \<and> 10000 \<le> t)
        \<or> (\<exists>t. detail io = OnError t \<and> 10000 \<le> t)"
    using that by (auto simp: fetchLatestNetWorth_def)
  have c2: "fetchLatestNetWorth 10000 (detail io) c = Some (Inl NoNetWorthData)"
    if "(\<exists>t. detail io = OnLoad t g \<and> t < 10000)
        \<and> (Data_netWorthTrend g = None \<or> Data_netWorthTrend g = Some [])"
    using that by (auto simp: fetchLatestNetWorth_def)
  have c3: "fetchLatestNetWorth 10000 (detail io) c = Some (Inl ApiRequestFailed)"
    if "\<exists>t. detail io = OnError t \<and> t < 10000"
    using that by (auto simp: fetchLatestNetWorth_def)
  have d: "fetchLatestNetWorth 10000 (detail io) c =
        Some (Inr \<lparr>ecode = c, ename = text_or_empty (fS_name g),
                   estimateNetWorth = or_default (trend_y p) 0,
                   dayGrowth = or_default (equityReturn p) 0,
                   netWorth = or_default (trend_y p) 0, time = []\<rparr>)"
    if "detail io = OnLoad t g \<and> t < 10000 \<and> Data_netWorthTrend g = Some (ps @ [Some p])"
    for t ps p
    using that by (simp add: fetchLatestNetWorth_def)
  from a b c1 c2 c3 d show ?thesis by blast
qed

theorem getFundEstimate_live_then_fallback_witness:
  "getFundEstimate io_live ''000001'' = Some (Inr estimate_A)
   \<and> getFundEstimate io_settled ''000002'' = Some (Inr estimate_B)
   \<and> getFundEstimate io_timeout ''000002'' = Some (Inl RequestTimeout)
   \<and> getFundEstimate io_no_data ''000002'' = Some (Inl NoNetWorthData)
   \<and> getFundEstimate io_error ''000002'' = Some (Inl ApiRequestFailed)"
proof -
  note t = getFundEstimate_live_then_fallback
  have l: "live io_live = OnLoad 120 (Some \<lparr>live_name = Some ''A'', gsz = Some 12.5,
      gszzl = None, dwjz = Some 12.4, gztime = Some ''2024-01-03 14:30''\<rparr>) \<and> (120::real) < 3000"
    by (simp add: io_live_def)
  have a: "getFundEstimate io_live ''000001'' = Some (Inr estimate_A)"
    using t[of io_live "''000001''", THEN conjunct1, rule_format, OF l]
    by (simp add: estimate_A_def text_or_empty_def or_default_def js_or_def)
  let ?g = "\<lparr>Data_netWorthTrend =
              Some [Some \<lparr>trend_y = Some 1.5, equityReturn = Some 0.3\<rparr>,
                    Some \<lparr>trend_y = Some 1.6, equityReturn = Some 0.7\<rparr>],
            fS_name = Some ''B''\<rparr>"
  have s1: "live io_settled = Silent \<or> (\<exists>t. live io_settled = OnError t)
        \<or> (\<exists>t w. live io_settled = OnLoad t w \<and> (3000 \<le> t \<or> w = None))"
    by (simp add: io_settled_def)
  have s2: "detail io_settled = OnLoad 900 ?g \<and> (900::real) < 10000
      \<and> Data_netWorthTrend ?g =
          Some ([Some \<lparr>trend_y = Some 1.5, equityReturn = Some 0.3\<rparr>]
                @ [Some \<lparr>trend_y = Some 1.6, equityReturn = Some 0.7\<rparr>])"
    by (simp add: io_settled_def)
  have b: "getFundEstimate io_settled ''000002'' = Some (Inr estimate_B)"
    using t[of io_settled "''000002''" ?g, THEN conjunct2, THEN conjunct1, rule_format, OF s1]
      t[of io_settled "''000002''" ?g, THEN conjunct2, THEN conjunct2, THEN conjunct2,
        THEN conjunct2, THEN conjunct2, rule_format, OF s2]
    by (simp add: estimate_B_def text_or_empty_def or_default_def js_or_def)
  have c: "getFundEstimate io_timeout ''000002'' = Some (Inl RequestTimeout)"
    using t[of io_timeout "''000002''"] by (simp add: io_timeout_def)
  have d: "getFundEstimate io_no_data ''000002'' = Some (Inl NoNetWorthData)"
    using t[of io_no_data "''000002''" "\<lparr>Data_netWorthTrend = None, fS_name = None\<rparr>"]
    by (simp add: io_no_data_def)
  have e: "getFundEstimate io_error ''000002'' = Some (Inl ApiRequestFailed)"
    using t[of io_error "''000002''"] by (simp add: io_error_def)
  from a b c d e show ?thesis by blast
qed

text \<open>
  The claim as stated fails on a malformed live payload: the live script loads in time
  and leaves an object of which no field parses. The call does not fall back, although
  the settled net value path would have delivered a valuation; it returns an estimate
  with every number \<open>0\<close>.
\<close>

theorem malformed_live_payload_counterexample:
  "getFundEstimate io_malformed_live ''000002'' = Some (Inr estimate_zero)
   \<and> fetchLatestNetWorth 10000 (detail io_malformed_live) ''000002'' = Some (Inr estimate_B)
   \<and> netWorth estimate_zero = 0 \<and> netWorth estimate_B = 1.6"
  by (simp add: client_defs example_defs)

section \<open>Fetching a batch\<close>

lemma promise_all_caught:
  "promise_all (map (\<lambda>x. catch_null (f x)) xs)
     = Inr (map (\<lambda>x. case f x of Inl e \<Rightarrow> None | Inr v \<Rightarrow> Some v) xs)"
  by (induction xs) (auto simp: catch_null_def split: sum.splits)

text \<open>
  C1 (as amended). For every list of instrument codes, \<open>getBatchFundEstimate\<close> does not
  fail as a whole, whatever the single fetches do: each failure is caught at the fan-out
  boundary and replaced by \<open>null\<close>, each outcome depends on its own fetch only, and the
  result is the list, in the order of the request, of the estimates of the instruments
  whose fetch succeeded. A failed instrument has no entry in the result, neither a value
  nor an error.
\<close>

theorem batch_returns_successes_only:
  "getBatchFundEstimate fetch codes =
     Inr (filter_not_null
            (map (\<lambda>(i, c). case fetch i c of Inl e \<Rightarrow> None | Inr v \<Rightarrow> Some v) (enumerate 0 codes)))"
proof -
  have "map (\<lambda>(i, c). catch_null (fetch i c)) (enumerate 0 codes)
      = map (\<lambda>x. catch_null ((\<lambda>(i, c). fetch i c) x)) (enumerate 0 codes)"
    by (simp add: case_prod_unfold)
  then show ?thesis
    by (simp add: getBatchFundEstimate_def promise_all_caught case_prod_unfold)
qed

theorem batch_returns_successes_only_witness:
  "getBatchFundEstimate fetch_all_timeout [''000001'', ''000002''] = Inr []"
  using batch_returns_successes_only [of fetch_all_timeout "[''000001'', ''000002'']"]
  by (simp add: example_defs client_defs enumerate_eq_zip)

text \<open>
  The claim as stated fails on a batch of two codes of which the second times out: the
  result has one entry, and nothing in it stands for the second code.
\<close>

theorem batch_omits_failed_code_counterexample:
  "fetch_first_ok 1 ''000002'' = Inl RequestTimeout
   \<and> getBatchFundEstimate fetch_first_ok [''000001'', ''000002''] = Inr [estimate_A]
   \<and> ecode estimate_A \<noteq> ''000002''"
  by (simp add: getBatchFundEstimate_def catch_null_def example_defs client_defs enumerate_eq_zip)

section \<open>Cache expiry\<close>






section \<open>Refresh scheduler: mutual exclusion and settlement\<close>

text \<open>
  C3. The scheduler never runs two batch refreshes at once: in every state in which a
  refresh is in flight (\<open>isLoading\<close> is true) a call of \<open>refreshNetValues\<close> is a no-op, it
  sends no request, leaves nothing behind to run later, and leaves the holdings, the last
  refresh time and the loading flag as they are. A refresh that has reached its \<open>await\<close>
  is in flight in this sense, so a second trigger before it settles does nothing.
\<close>

theorem refresh_in_flight_is_noop:
  "(isLoading st \<longrightarrow>
      refresh_begin now st = Returned st []
      \<and> refreshNetValues net render_throws now st = Finished st [])
   \<and> (refresh_begin now st = Awaiting st1 codes sent \<longrightarrow>
      isLoading st1 \<and> refresh_begin now' st1 = Returned st1 []
      \<and> refreshNetValues net' render_throws' now' st1 = Finished st1 [])"
proof -
  have a: "refresh_begin t s = Returned s []" if "isLoading s" for t s
    using that by (simp add: refresh_begin_def)
  have b: "refreshNetValues n r t s = Finished s []" if "isLoading s" for n r t s
    using that by (simp add: refreshNetValues_def a)
  have c: "isLoading st1" if "refresh_begin now st = Awaiting st1 codes sent"
    using that
    by (auto simp: refresh_begin_def setRefreshing_def Let_def split: if_splits)
  from a b c show ?thesis by blast
qed

theorem refresh_in_flight_is_noop_witness:
  "isLoading state_loading
   \<and> refreshNetValues net_all_ok render_ok 2000 state_loading = Finished state_loading []
   \<and> refresh_begin 1000 state_two =
       Awaiting state_loading [''000001'', ''000002'']
         [UpdateSummaryCard (calculateSummary [holding_A, holding_B]), RefreshBtnRotating True,
          Request ''000001'', Request ''000002'']
   \<and> refresh_begin 2000 state_loading = Returned state_loading []"
proof -
  have l: "isLoading state_loading" by (simp add: state_loading_def)
  have b: "refresh_begin 1000 state_two =
       Awaiting state_loading [''000001'', ''000002'']
         [UpdateSummaryCard (calculateSummary [holding_A, holding_B]), RefreshBtnRotating True,
          Request ''000001'', Request ''000002'']"
    by (simp add: refresh_begin_def setRefreshing_def Let_def state_two_def state_loading_def
          holding_A_def holding_B_def)
  from refresh_in_flight_is_noop
         [of state_loading 2000 net_all_ok render_ok state_loading "[]" "[]" 2000 net_all_ok render_ok]
       l
  have n: "refreshNetValues net_all_ok render_ok 2000 state_loading = Finished state_loading []"
    by blast
  from refresh_in_flight_is_noop
         [of state_two 1000 net_all_ok render_ok state_loading "[''000001'', ''000002'']"
             "[UpdateSummaryCard (calculateSummary [holding_A, holding_B]), RefreshBtnRotating True,
               Request ''000001'', Request ''000002'']" 2000 net_all_ok render_ok]
       b
  have r: "refresh_begin 2000 state_loading = Returned state_loading []"
    by blast
  from l n b r show ?thesis by blast
qed

lemma settle_idle: "\<not> isLoading (fst (refresh_settle r t rs s))"
  by (simp add: refresh_settle_def setRefreshing_def Let_def split: prod.splits)

lemma begin_returned_idle:
  "\<not> isLoading st \<Longrightarrow> refresh_begin now st = Returned st1 evs \<Longrightarrow> \<not> isLoading st1"
  by (auto simp: refresh_begin_def setRefreshing_def Let_def split: if_splits)

lemma allSettled_settled:
  "(\<And>p. p \<in> set ps \<Longrightarrow> p \<noteq> None) \<Longrightarrow> allSettled ps = Some (map settled_result ps)"
  by (induction ps) (auto simp: settled_result_def split: option.splits sum.splits)

lemma allSettled_pending: "None \<in> set ps \<Longrightarrow> allSettled ps = None"
  by (induction ps) (auto split: option.splits)

lemma requests_nth:
  "i < length cs \<Longrightarrow>
   map (\<lambda>(i, c). f i c) (enumerate 0 cs) ! i = f i (cs ! i)"
  by (simp add: nth_enumerate_eq)

text \<open>
  Whenever the batch settles, the refresh runs to its end and the scheduler is idle
  again, on every path through the \<open>try\<close> block.
\<close>

lemma refresh_finishes_idle:
  assumes "\<not> isLoading st"
    and "\<And>i. i < length (holdings st) \<Longrightarrow>
           getFundEstimate (net i) (code (holdings st ! i)) \<noteq> None"
  shows "\<exists>st' evs. refreshNetValues net render_throws now st = Finished st' evs
           \<and> \<not> isLoading st'"
proof (cases "refresh_begin now st")
  case (Returned s evs)
  with begin_returned_idle[OF assms(1) Returned] show ?thesis
    by (simp add: refreshNetValues_def)
next
  case (Awaiting s codes sent)
  then have codes: "codes = map code (holdings st)"
    by (auto simp: refresh_begin_def setRefreshing_def Let_def split: if_splits)
  let ?ps = "map (\<lambda>(i, c). getFundEstimate (net i) c) (enumerate 0 codes)"
  have "p \<noteq> None" if "p \<in> set ?ps" for p
  proof -
    from that obtain i where i: "i < length codes" and p: "p = ?ps ! i"
      by (auto simp: in_set_conv_nth)
    have "p = getFundEstimate (net i) (codes ! i)"
      unfolding p using i by (rule requests_nth)
    with assms(2)[of i] i codes show ?thesis by simp
  qed
  then have "allSettled ?ps = Some (map settled_result ?ps)" by (rule allSettled_settled)
  then show ?thesis
    using settle_idle[of render_throws now "map settled_result ?ps" s]
    by (auto simp: refreshNetValues_def Awaiting split: prod.splits)
qed

text \<open>
  When a request of a refresh that is due never settles, the refresh is stuck with the
  loading flag set.
\<close>

lemma refresh_stuck_when_pending:
  assumes "\<not> isLoading st"
    and "lastRefreshTime st = 0 \<or> refreshInterval st \<le> now - lastRefreshTime st"
    and "i < length (holdings st)"
    and "getFundEstimate (net i) (code (holdings st ! i)) = None"
  shows "\<exists>evs. refreshNetValues net render_throws now st = Stuck (st\<lparr>isLoading := True\<rparr>) evs"
proof -
  let ?codes = "map code (holdings st)"
  let ?ps = "map (\<lambda>(i, c). getFundEstimate (net i) c) (enumerate 0 ?codes)"
  from assms(3) have ne: "?codes \<noteq> []" by auto
  with assms(1,2) have b: "refresh_begin now st =
      Awaiting (st\<lparr>isLoading := True\<rparr>) ?codes
        ([UpdateSummaryCard (calculateSummary (holdings st))] @ [RefreshBtnRotating True]
          @ map Request ?codes)"
    by (simp add: refresh_begin_def setRefreshing_def Let_def)
  have "?ps ! i = getFundEstimate (net i) (?codes ! i)"
    using assms(3) by (intro requests_nth) simp
  with assms(3,4) have "?ps ! i = None" by simp
  moreover have "i < length ?ps" using assms(3) by simp
  ultimately have "None \<in> set ?ps" by (metis nth_mem)
  then have "allSettled ?ps = None" by (rule allSettled_pending)
  then show ?thesis by (simp add: refreshNetValues_def b)
qed

text \<open>
  C4. On every path of a batch refresh (success, partial success, total failure, an empty
  list of codes, an exception raised mid-refresh) the scheduler should be back in \<open>Idle\<close>
  when the refresh has settled, and never remain stuck in \<open>Refreshing\<close>. The code does
  not achieve this. With two holdings, the first request answered by the live path and
  the second by a detail script whose trend ends in \<open>null\<close>, the \<open>onload\<close> handler of
  \<open>fetchLatestNetWorth\<close> raises after it has cleared its timer; the request never settles,
  the refresh never resumes, and the loading flag stays true. Every later call of
  \<open>refreshNetValues\<close> is then a no-op.
\<close>

theorem refresh_stuck_on_null_trend_point:
  "\<not> isLoading state_two
   \<and> getFundEstimate (net_second_hangs 0) ''000001'' = Some (Inr estimate_A)
   \<and> getFundEstimate (net_second_hangs 1) ''000002'' = None
   \<and> refreshNetValues net_second_hangs render_ok 1000 state_two =
       Stuck state_loading
         [UpdateSummaryCard (calculateSummary [holding_A, holding_B]), RefreshBtnRotating True,
          Request ''000001'', Request ''000002'']
   \<and> isLoading state_loading
   \<and> refreshNetValues net_all_ok render_ok 400000 state_loading = Finished state_loading []"
  by (simp add: refreshNetValues_def refresh_begin_def setRefreshing_def enumerate_eq_zip
        client_defs example_defs)

section \<open>Refresh scheduler: merging the results of a batch\<close>

lemma code_update_holding: "code (update_holding e h) = code h"
  by (simp add: update_holding_def)

lemma code_apply_result: "code (apply_result h r) = code h"
  by (simp add: apply_result_def code_update_holding split: settled.splits)

lemma find_update_distinct:
  "distinct (map code hs) \<Longrightarrow>
   find_update (\<lambda>h. code h = c) f hs =
     (if c \<in> code ` set hs then Some (map (\<lambda>h. if code h = c then f h else h) hs) else None)"
proof (induction hs)
  case Nil
  then show ?case by simp
next
  case (Cons h hs)
  show ?case
  proof (cases "code h = c")
    case True
    have nin: "code h \<notin> code ` set hs" using Cons.prems by simp
    have "code x \<noteq> c" if "x \<in> set hs" for x
    proof
      assume "code x = c"
      with True have "code h = code x" by simp
      moreover have "code x \<in> code ` set hs" using that by (rule imageI)
      ultimately show False using nin by simp
    qed
    then have "map (\<lambda>h. if code h = c then f h else h) hs = hs"
      by (intro map_idI) simp
    with True show ?thesis by simp
  next
    case False
    with Cons show ?thesis by auto
  qed
qed

lemma merge_result_distinct:
  assumes "distinct (map code hs)"
  shows "merge_result (hs, u) r =
           (map (\<lambda>h. apply_result h r) hs,
            u \<or> (\<exists>e. r = Fulfilled e \<and> ecode e \<in> code ` set hs))"
proof (cases r)
  case (Fulfilled e)
  show ?thesis
  proof (cases "ecode e \<in> code ` set hs")
    case True
    then show ?thesis
      using find_update_distinct[OF assms, of "ecode e" "update_holding e"] Fulfilled
      by (simp add: merge_result_def apply_result_def)
  next
    case False
    have "code x \<noteq> ecode e" if "x \<in> set hs" for x
    proof
      assume "code x = ecode e"
      moreover have "code x \<in> code ` set hs" using that by (rule imageI)
      ultimately show False using False by simp
    qed
    then have "map (\<lambda>h. apply_result h r) hs = hs"
      unfolding Fulfilled by (intro map_idI) (simp add: apply_result_def)
    with False show ?thesis
      using find_update_distinct[OF assms, of "ecode e" "update_holding e"] Fulfilled
      by (simp add: merge_result_def)
  qed
next
  case (Rejected x)
  then show ?thesis by (simp add: merge_result_def apply_result_def)
qed

lemma foldl_merge_result:
  "distinct (map code hs) \<Longrightarrow>
   foldl merge_result (hs, u) rs =
     (map (\<lambda>h. foldl apply_result h rs) hs,
      u \<or> (\<exists>e. Fulfilled e \<in> set rs \<and> ecode e \<in> code ` set hs))"
proof (induction rs arbitrary: hs u)
  case Nil
  then show ?case by simp
next
  case (Cons r rs)
  let ?hs = "map (\<lambda>h. apply_result h r) hs"
  have codes: "map code ?hs = map code hs"
    by (simp add: code_apply_result comp_def)
  have d: "distinct (map code ?hs)" unfolding codes by (rule Cons.prems)
  have img: "code ` set ?hs = code ` set hs"
    using codes by (metis list.set_map)
  show ?case
    unfolding foldl_Cons merge_result_distinct[OF Cons.prems] Cons.IH[OF d] img
    by (auto simp: comp_def)
qed

lemma foldl_apply_result_other:
  "(\<And>e. Fulfilled e \<in> set rs \<Longrightarrow> ecode e \<noteq> code h) \<Longrightarrow> foldl apply_result h rs = h"
proof (induction rs arbitrary: h)
  case Nil
  then show ?case by simp
next
  case (Cons r rs)
  have "apply_result h r = h"
  proof (cases r)
    case (Fulfilled e)
    then have "ecode e \<noteq> code h" using Cons.prems[of e] by simp
    then show ?thesis using Fulfilled by (auto simp: apply_result_def)
  next
    case (Rejected x)
    then show ?thesis by (simp add: apply_result_def)
  qed
  then show ?case using Cons by simp
qed

lemma foldl_apply_result_nth:
  assumes "i < length rs"
    and "\<And>j e. j < length rs \<Longrightarrow> j \<noteq> i \<Longrightarrow> rs ! j = Fulfilled e \<Longrightarrow> ecode e \<noteq> code h"
  shows "foldl apply_result h rs = apply_result h (rs ! i)"
proof -
  have parts: "rs = take i rs @ rs ! i # drop (Suc i) rs"
    using assms(1) by (simp add: id_take_nth_drop)
  have before: "foldl apply_result h (take i rs) = h"
  proof (rule foldl_apply_result_other)
    fix e assume "Fulfilled e \<in> set (take i rs)"
    then obtain j where "j < i" "rs ! j = Fulfilled e"
      using assms(1) by (auto simp: in_set_conv_nth)
    then show "ecode e \<noteq> code h" using assms(1) assms(2)[of j e] by simp
  qed
  have after: "foldl apply_result (apply_result h (rs ! i)) (drop (Suc i) rs) = apply_result h (rs ! i)"
  proof (rule foldl_apply_result_other)
    fix e assume "Fulfilled e \<in> set (drop (Suc i) rs)"
    then obtain k where "k < length rs - Suc i" "rs ! (Suc i + k) = Fulfilled e"
      by (auto simp: in_set_conv_nth)
    then have "ecode e \<noteq> code h" using assms(2)[of "Suc i + k" e] by simp
    then show "ecode e \<noteq> code (apply_result h (rs ! i))" by (simp add: code_apply_result)
  qed
  have "foldl apply_result h rs
      = foldl apply_result (apply_result (foldl apply_result h (take i rs)) (rs ! i)) (drop (Suc i) rs)"
    by (subst parts) (simp only: foldl_append foldl_Cons)
  then show ?thesis by (simp add: before after)
qed

lemma length_batch_results: "length (batch_results net hs) = length hs"
  by (simp add: batch_results_def)

lemma nth_batch_results:
  "i < length hs \<Longrightarrow>
   batch_results net hs ! i = settled_result (getFundEstimate (net i) (code (hs ! i)))"
  by (simp add: batch_results_def nth_enumerate_eq)

lemma batch_settles:
  assumes "\<And>i. i < length hs \<Longrightarrow> getFundEstimate (net i) (code (hs ! i)) \<noteq> None"
  shows "allSettled (map (\<lambda>(i, c). getFundEstimate (net i) c) (enumerate 0 (map code hs)))
           = Some (batch_results net hs)"
proof -
  let ?ps = "map (\<lambda>(i, c). getFundEstimate (net i) c) (enumerate 0 (map code hs))"
  have "p \<noteq> None" if "p \<in> set ?ps" for p
  proof -
    from that obtain i where i: "i < length hs" and p: "p = ?ps ! i"
      by (auto simp: in_set_conv_nth)
    have "p = getFundEstimate (net i) (map code hs ! i)"
      unfolding p using i by (intro requests_nth) simp
    with assms[of i] i show ?thesis by simp
  qed
  then have "allSettled ?ps = Some (map settled_result ?ps)" by (rule allSettled_settled)
  moreover have "map settled_result ?ps = batch_results net hs"
    by (simp add: batch_results_def case_prod_unfold comp_def)
  ultimately show ?thesis by simp
qed

lemma refresh_when_due:
  assumes "\<not> isLoading st"
    and "lastRefreshTime st = 0 \<or> refreshInterval st \<le> now - lastRefreshTime st"
    and "\<And>i. i < length (holdings st) \<Longrightarrow>
           getFundEstimate (net i) (code (holdings st ! i)) \<noteq> None"
  shows "\<exists>evs. refreshNetValues net rt now st =
     Finished
       (case foldl merge_result (holdings st, False) (batch_results net (holdings st)) of
          (hs, updated) \<Rightarrow>
            st\<lparr>holdings := hs,
               lastRefreshTime := (if updated then now else lastRefreshTime st),
               isLoading := False\<rparr>) evs"
proof (cases "holdings st = []")
  case True
  with assms(1,2) show ?thesis
    by (simp add: refreshNetValues_def refresh_begin_def setRefreshing_def batch_results_def
          Let_def)
next
  case False
  with assms(1,2) have b: "refresh_begin now st =
      Awaiting (st\<lparr>isLoading := True\<rparr>) (map code (holdings st))
        ([UpdateSummaryCard (calculateSummary (holdings st))] @ [RefreshBtnRotating True]
          @ map Request (map code (holdings st)))"
    by (simp add: refresh_begin_def setRefreshing_def Let_def)
  show ?thesis
    by (simp add: refreshNetValues_def b batch_settles[of "holdings st" net, OF assms(3)]
          refresh_settle_def setRefreshing_def Let_def split: prod.splits)
qed

lemma batch_updated_iff:
  assumes "\<And>i. i < length hs \<Longrightarrow> getFundEstimate (net i) (code (hs ! i)) \<noteq> None"
  shows "(\<exists>e. Fulfilled e \<in> set (batch_results net hs) \<and> ecode e \<in> code ` set hs)
   \<longleftrightarrow> (\<exists>i<length hs. \<exists>est. getFundEstimate (net i) (code (hs ! i)) = Some (Inr est))"
proof
  assume "\<exists>e. Fulfilled e \<in> set (batch_results net hs) \<and> ecode e \<in> code ` set hs"
  then obtain e i where i: "i < length hs" and "batch_results net hs ! i = Fulfilled e"
    by (auto simp: in_set_conv_nth length_batch_results)
  then have "getFundEstimate (net i) (code (hs ! i)) = Some (Inr e)"
    using assms[of i]
    by (auto simp: nth_batch_results settled_result_def split: option.splits sum.splits)
  with i show "\<exists>i<length hs. \<exists>est. getFundEstimate (net i) (code (hs ! i)) = Some (Inr est)"
    by blast
next
  assume "\<exists>i<length hs. \<exists>est. getFundEstimate (net i) (code (hs ! i)) = Some (Inr est)"
  then obtain i est where i: "i < length hs"
    and est: "getFundEstimate (net i) (code (hs ! i)) = Some (Inr est)" by blast
  have "batch_results net hs ! i = Fulfilled est"
    using i est by (simp add: nth_batch_results settled_result_def)
  then have m: "Fulfilled est \<in> set (batch_results net hs)"
    using i by (metis length_batch_results nth_mem)
  have "ecode est = code (hs ! i)" using est by (rule getFundEstimate_code)
  then have "ecode est \<in> code ` set hs" using i by simp
  with m show "\<exists>e. Fulfilled e \<in> set (batch_results net hs) \<and> ecode e \<in> code ` set hs" by blast
qed

lemma batch_apply_nth:
  assumes "distinct (map code hs)" and "i < length hs"
    and "\<And>i. i < length hs \<Longrightarrow> getFundEstimate (net i) (code (hs ! i)) \<noteq> None"
  shows "foldl apply_result (hs ! i) (batch_results net hs) =
     (case getFundEstimate (net i) (code (hs ! i)) of
        Some (Inr est) \<Rightarrow> update_holding est (hs ! i)
      | Some (Inl err) \<Rightarrow> hs ! i
      | None \<Rightarrow> hs ! i)"
proof -
  have other: "ecode e \<noteq> code (hs ! i)"
    if "j < length (batch_results net hs)" "j \<noteq> i" "batch_results net hs ! j = Fulfilled e" for j e
  proof -
    have j: "j < length hs" using that(1) by (simp add: length_batch_results)
    have "getFundEstimate (net j) (code (hs ! j)) = Some (Inr e)"
      using that(3) j assms(3)[of j]
      by (auto simp: nth_batch_results settled_result_def split: option.splits sum.splits)
    then have "ecode e = code (hs ! j)" by (rule getFundEstimate_code)
    moreover have "code (hs ! j) \<noteq> code (hs ! i)"
      using assms(1,2) j that(2) by (simp add: distinct_conv_nth)
    ultimately show ?thesis by simp
  qed
  have "foldl apply_result (hs ! i) (batch_results net hs)
      = apply_result (hs ! i) (batch_results net hs ! i)"
    by (rule foldl_apply_result_nth) (simp_all add: length_batch_results assms(2) other)
  also have "\<dots> = (case getFundEstimate (net i) (code (hs ! i)) of
        Some (Inr est) \<Rightarrow> update_holding est (hs ! i)
      | Some (Inl err) \<Rightarrow> hs ! i
      | None \<Rightarrow> hs ! i)"
    using assms(2)
    by (auto simp: nth_batch_results apply_result_def settled_result_def
             split: option.splits sum.splits dest: getFundEstimate_code)
  finally show ?thesis .
qed

text \<open>
  The state after a refresh that was due and whose requests all settled, for holdings
  with pairwise different codes: each holding is the old one with its own estimate merged
  in, or the old one.
\<close>

lemma refresh_state_distinct:
  assumes "\<not> isLoading st"
    and "lastRefreshTime st = 0 \<or> refreshInterval st \<le> now - lastRefreshTime st"
    and "distinct (map code (holdings st))"
    and "\<And>i. i < length (holdings st) \<Longrightarrow>
           getFundEstimate (net i) (code (holdings st ! i)) \<noteq> None"
  shows "\<exists>evs. refreshNetValues net rt now st =
      Finished
        (st\<lparr>holdings :=
              map (\<lambda>h. foldl apply_result h (batch_results net (holdings st))) (holdings st),
            lastRefreshTime :=
              (if \<exists>i<length (holdings st). \<exists>est.
                    getFundEstimate (net i) (code (holdings st ! i)) = Some (Inr est)
               then now else lastRefreshTime st),
            isLoading := False\<rparr>) evs"
  using refresh_when_due[OF assms(1,2,4), of rt]
  by (simp add: foldl_merge_result[OF assms(3)] batch_updated_iff[of "holdings st" net, OF assms(4)])

lemma refresh_holding_nth:
  assumes "\<not> isLoading st"
    and "lastRefreshTime st = 0 \<or> refreshInterval st \<le> now - lastRefreshTime st"
    and "distinct (map code (holdings st))"
    and "\<And>i. i < length (holdings st) \<Longrightarrow>
           getFundEstimate (net i) (code (holdings st ! i)) \<noteq> None"
    and "i < length (holdings st)"
  shows "holdings (final_state (refreshNetValues net rt now st)) ! i =
     (case getFundEstimate (net i) (code (holdings st ! i)) of
        Some (Inr est) \<Rightarrow> update_holding est (holdings st ! i)
      | Some (Inl err) \<Rightarrow> holdings st ! i
      | None \<Rightarrow> holdings st ! i)"
proof -
  from refresh_state_distinct[OF assms(1,2,3,4), of rt] obtain evs where
    "refreshNetValues net rt now st =
      Finished
        (st\<lparr>holdings :=
              map (\<lambda>h. foldl apply_result h (batch_results net (holdings st))) (holdings st),
            lastRefreshTime :=
              (if \<exists>i<length (holdings st). \<exists>est.
                    getFundEstimate (net i) (code (holdings st ! i)) = Some (Inr est)
               then now else lastRefreshTime st),
            isLoading := False\<rparr>) evs" by blast
  then show ?thesis
    using assms(5) batch_apply_nth[OF assms(3) assms(5), of net, OF assms(4)]
    by simp
qed

text \<open>
  C2 (as amended). For every batch refresh over holdings with pairwise different
  instrument codes, whatever instruments succeed and fail: when the batch has settled the
  refresh runs to its end, and then a holding whose fetch succeeded
  has its last valuation, its day-change rate and its observation time updated in place
  (the last valuation to the estimate's net value, or when that is \<open>0\<close> to the previous
  valuation or else the cost price; the day-change rate to the estimate's day growth;
  the time to the estimate's time) and no other field changed; a holding whose fetch
  failed keeps all of its fields; and the last refresh time advances, to the time of the
  refresh, if at least one instrument succeeded and stays as it was if none did.
\<close>

theorem refresh_updates_succeeded_holdings:
  assumes "\<not> isLoading st"
    and "lastRefreshTime st = 0 \<or> refreshInterval st \<le> now - lastRefreshTime st"
    and "distinct (map code (holdings st))"
    and "\<forall>i<length (holdings st). getFundEstimate (net i) (code (holdings st ! i)) \<noteq> None"
  shows "(\<exists>st' evs. refreshNetValues net rt now st = Finished st' evs)
    \<and> length (holdings (final_state (refreshNetValues net rt now st))) = length (holdings st)
    \<and> (\<forall>i<length (holdings st).
          holdings (final_state (refreshNetValues net rt now st)) ! i =
            (case getFundEstimate (net i) (code (holdings st ! i)) of
               Some (Inr est) \<Rightarrow>
                 (holdings st ! i)
                   \<lparr>lastNav := Some (js_or (netWorth est)
                       (or_default (lastNav (holdings st ! i)) (costPrice (holdings st ! i)))),
                    dayChange := Some (js_or (dayGrowth est) 0),
                    estimateTime := Some (time est)\<rparr>
             | Some (Inl err) \<Rightarrow> holdings st ! i
             | None \<Rightarrow> holdings st ! i))
    \<and> lastRefreshTime (final_state (refreshNetValues net rt now st)) =
        (if \<exists>i<length (holdings st). \<exists>est.
              getFundEstimate (net i) (code (holdings st ! i)) = Some (Inr est)
         then now else lastRefreshTime st)
    \<and> (0 < now \<and> 0 < refreshInterval st
        \<and> (\<exists>i<length (holdings st). \<exists>est.
              getFundEstimate (net i) (code (holdings st ! i)) = Some (Inr est)) \<longrightarrow>
        lastRefreshTime st < lastRefreshTime (final_state (refreshNetValues net rt now st)))"
proof -
  let ?hs = "holdings st"
  let ?st' = "final_state (refreshNetValues net rt now st)"
  have settles: "getFundEstimate (net i) (code (?hs ! i)) \<noteq> None" if "i < length ?hs" for i
    using assms(4) that by blast
  from refresh_state_distinct[OF assms(1,2,3) settles, of rt] obtain evs where
    run: "refreshNetValues net rt now st =
      Finished
        (st\<lparr>holdings := map (\<lambda>h. foldl apply_result h (batch_results net ?hs)) ?hs,
            lastRefreshTime :=
              (if \<exists>i<length ?hs. \<exists>est.
                    getFundEstimate (net i) (code (?hs ! i)) = Some (Inr est)
               then now else lastRefreshTime st),
            isLoading := False\<rparr>) evs" by blast
  then have fin: "\<exists>st' evs. refreshNetValues net rt now st = Finished st' evs" by blast
  have len: "length (holdings ?st') = length ?hs" by (simp add: run)
  have nth: "holdings ?st' ! i =
            (case getFundEstimate (net i) (code (?hs ! i)) of
               Some (Inr est) \<Rightarrow>
                 (?hs ! i)
                   \<lparr>lastNav := Some (js_or (netWorth est)
                       (or_default (lastNav (?hs ! i)) (costPrice (?hs ! i)))),
                    dayChange := Some (js_or (dayGrowth est) 0),
                    estimateTime := Some (time est)\<rparr>
             | Some (Inl err) \<Rightarrow> ?hs ! i
             | None \<Rightarrow> ?hs ! i)" if "i < length ?hs" for i
    using refresh_holding_nth[OF assms(1,2,3) settles that, of rt]
    by (simp add: update_holding_def split: option.splits sum.splits)
  have clock: "lastRefreshTime ?st' =
        (if \<exists>i<length ?hs. \<exists>est. getFundEstimate (net i) (code (?hs ! i)) = Some (Inr est)
         then now else lastRefreshTime st)"
    by (simp add: run)
  have adv: "lastRefreshTime st < lastRefreshTime ?st'"
    if "0 < now \<and> 0 < refreshInterval st
        \<and> (\<exists>i<length ?hs. \<exists>est. getFundEstimate (net i) (code (?hs ! i)) = Some (Inr est))"
  proof -
    from that clock have "lastRefreshTime ?st' = now" by simp
    moreover have "lastRefreshTime st < now" using assms(2) that by auto
    ultimately show ?thesis by simp
  qed
  from fin len nth clock adv show ?thesis by blast
qed

theorem refresh_updates_succeeded_holdings_witness:
  "\<not> isLoading state_two
   \<and> (lastRefreshTime state_two = 0 \<or> refreshInterval state_two \<le> 1000 - lastRefreshTime state_two)
   \<and> distinct (map code (holdings state_two))
   \<and> getFundEstimate (net_first_ok 0) ''000001'' = Some (Inr estimate_A)
   \<and> getFundEstimate (net_first_ok 1) ''000002'' = Some (Inl RequestTimeout)
   \<and> holdings (final_state (refreshNetValues net_first_ok render_ok 1000 state_two)) ! 0 =
       holding_A\<lparr>lastNav := Some 12.4, dayChange := Some 0,
                 estimateTime := Some ''2024-01-03 14:30''\<rparr>
   \<and> holdings (final_state (refreshNetValues net_first_ok render_ok 1000 state_two)) ! 1 = holding_B
   \<and> lastRefreshTime (final_state (refreshNetValues net_first_ok render_ok 1000 state_two)) = 1000
   \<and> lastRefreshTime (final_state (refreshNetValues net_all_timeout render_ok 1000 state_two)) = 0"
proof -
  have p: "\<not> isLoading state_two"
    "lastRefreshTime state_two = 0 \<or> refreshInterval state_two \<le> 1000 - lastRefreshTime state_two"
    "distinct (map code (holdings state_two))"
    by (simp_all add: example_defs)
  have f: "getFundEstimate (net_first_ok 0) ''000001'' = Some (Inr estimate_A)"
    "getFundEstimate (net_first_ok 1) ''000002'' = Some (Inl RequestTimeout)"
    by (simp_all add: example_defs client_defs)
  have g: "getFundEstimate (net_all_timeout i) c = Some (Inl RequestTimeout)" for i c
    by (simp add: example_defs client_defs)
  have s1: "\<forall>i<length (holdings state_two).
      getFundEstimate (net_first_ok i) (code (holdings state_two ! i)) \<noteq> None"
    by (simp add: example_defs client_defs)
  have s2: "\<forall>i<length (holdings state_two).
      getFundEstimate (net_all_timeout i) (code (holdings state_two ! i)) \<noteq> None"
    by (simp add: g)
  note a = refresh_updates_succeeded_holdings
             [where net = net_first_ok and rt = render_ok, OF p s1, THEN conjunct2]
  note b = refresh_updates_succeeded_holdings
             [where net = net_all_timeout and rt = render_ok, OF p s2, THEN conjunct2]
  have h0: "holdings (final_state (refreshNetValues net_first_ok render_ok 1000 state_two)) ! 0 =
       holding_A\<lparr>lastNav := Some 12.4, dayChange := Some 0,
                 estimateTime := Some ''2024-01-03 14:30''\<rparr>"
    using a[THEN conjunct2, THEN conjunct1, rule_format, of 0]
    by (simp add: example_defs client_defs)
  have h1: "holdings (final_state (refreshNetValues net_first_ok render_ok 1000 state_two)) ! 1
      = holding_B"
    using a[THEN conjunct2, THEN conjunct1, rule_format, of 1]
    by (simp add: example_defs client_defs)
  have c1: "lastRefreshTime (final_state (refreshNetValues net_first_ok render_ok 1000 state_two))
      = 1000"
  proof -
    have "\<exists>i<length (holdings state_two). \<exists>est.
        getFundEstimate (net_first_ok i) (code (holdings state_two ! i)) = Some (Inr est)"
      by (rule exI[of _ 0]) (simp add: example_defs client_defs)
    with a show ?thesis by simp
  qed
  have c0: "lastRefreshTime (final_state (refreshNetValues net_all_timeout render_ok 1000 state_two))
      = 0"
    using b by (simp add: g) (simp add: state_two_def)
  from p f h0 h1 c1 c0 show ?thesis by blast
qed

text \<open>
  The claim as stated fails when two holdings carry the same code. The request of the
  first times out and the request of the second succeeds; the estimate is merged into the
  first holding, whose own lookup failed, and the second keeps its fields.
\<close>

theorem refresh_duplicate_code_counterexample:
  "getFundEstimate (net_second_ok 0) (code (holdings state_duplicate ! 0))
     = Some (Inl RequestTimeout)
   \<and> getFundEstimate (net_second_ok 1) (code (holdings state_duplicate ! 1))
     = Some (Inr estimate_A)
   \<and> holdings (final_state (refreshNetValues net_second_ok render_ok 1000 state_duplicate)) ! 0
       \<noteq> holdings state_duplicate ! 0
   \<and> holdings (final_state (refreshNetValues net_second_ok render_ok 1000 state_duplicate)) ! 1
       = holdings state_duplicate ! 1"
  by (simp add: refresh_defs client_defs example_defs)

section \<open>Day change after a refresh\<close>

lemma summary_flag:
  "foldl summary_step acc hs = (a, b, c, d) \<Longrightarrow>
   d = (snd (snd (snd acc)) \<or> (\<exists>h\<in>set hs. dayChange h \<noteq> None))"
proof (induction hs arbitrary: acc a b c d)
  case Nil
  then show ?case by auto
next
  case (Cons h hs)
  obtain a' b' c' d' where s: "summary_step acc h = (a', b', c', d')"
    by (metis prod_cases4)
  have d': "d' = (snd (snd (snd acc)) \<or> dayChange h \<noteq> None)"
    using s by (auto simp: summary_step_def Let_def split: prod.splits option.splits)
  from Cons.prems have "foldl summary_step (a', b', c', d') hs = (a, b, c, d)"
    by (simp add: s)
  from Cons.IH[OF this] d' show ?case by auto
qed

lemma hasDayProfit_iff: "hasDayProfit (calculateSummary hs) \<longleftrightarrow> (\<exists>h\<in>set hs. dayChange h \<noteq> None)"
proof -
  obtain a b c d where f: "foldl summary_step (0, 0, 0, False) hs = (a, b, c, d)"
    by (metis prod_cases4)
  from summary_flag[OF f] have "d = (\<exists>h\<in>set hs. dayChange h \<noteq> None)" by simp
  then show ?thesis by (simp add: calculateSummary_def f Let_def)
qed

text \<open>
  C10 (as amended). After any batch refresh over holdings with pairwise different
  instrument codes, a holding whose fetch succeeded has a day change that is a present
  number, never absent: the day growth of the estimate, which is the provider's day growth
  and \<open>0\<close> when the provider reported a missing, malformed or zero growth. Consequently
  \<open>calculateSummary\<close> returns \<open>hasDayProfit = true\<close> for the holdings after the refresh,
  and for every list that contains such a holding, also when the provider supplied no
  intraday data for it.
\<close>

theorem refreshed_holding_has_day_change:
  assumes "\<not> isLoading st"
    and "lastRefreshTime st = 0 \<or> refreshInterval st \<le> now - lastRefreshTime st"
    and "distinct (map code (holdings st))"
    and "\<forall>i<length (holdings st). getFundEstimate (net i) (code (holdings st ! i)) \<noteq> None"
    and "i < length (holdings st)"
    and "getFundEstimate (net i) (code (holdings st ! i)) = Some (Inr est)"
  shows "dayChange (holdings (final_state (refreshNetValues net rt now st)) ! i)
      = Some (js_or (dayGrowth est) 0)
    \<and> dayChange (holdings (final_state (refreshNetValues net rt now st)) ! i) \<noteq> None
    \<and> (\<forall>t d. live (net i) = OnLoad t (Some d) \<and> t < 3000 \<longrightarrow>
          dayChange (holdings (final_state (refreshNetValues net rt now st)) ! i) =
            Some (case gszzl d of None \<Rightarrow> 0 | Some g \<Rightarrow> g))
    \<and> (\<forall>t g ps p. fetchRealTimeEstimate (live (net i)) (code (holdings st ! i)) = None
          \<and> detail (net i) = OnLoad t g \<and> Data_netWorthTrend g = Some (ps @ [Some p]) \<longrightarrow>
          dayChange (holdings (final_state (refreshNetValues net rt now st)) ! i) =
            Some (case equityReturn p of None \<Rightarrow> 0 | Some g \<Rightarrow> g))
    \<and> hasDayProfit (calculateSummary (holdings (final_state (refreshNetValues net rt now st))))
    \<and> (\<forall>hs. holdings (final_state (refreshNetValues net rt now st)) ! i \<in> set hs \<longrightarrow>
          hasDayProfit (calculateSummary hs))"
proof -
  let ?hs' = "holdings (final_state (refreshNetValues net rt now st))"
  let ?c = "code (holdings st ! i)"
  have settles: "getFundEstimate (net i) (code (holdings st ! i)) \<noteq> None"
    if "i < length (holdings st)" for i
    using assms(4) that by blast
  from refresh_state_distinct[OF assms(1,2,3) settles, of rt]
  have len: "length ?hs' = length (holdings st)" by auto
  have a: "dayChange (?hs' ! i) = Some (js_or (dayGrowth est) 0)"
    using refresh_holding_nth[OF assms(1,2,3) settles assms(5), of rt] assms(6)
    by (simp add: update_holding_def)
  have b: "js_or (dayGrowth est) 0 = (case gszzl d of None \<Rightarrow> 0 | Some g \<Rightarrow> g)"
    if "live (net i) = OnLoad t (Some d) \<and> t < 3000" for t d
  proof -
    from that have "getFundEstimate (net i) ?c =
        Some (Inr \<lparr>ecode = ?c, ename = text_or_empty (live_name d),
             estimateNetWorth = or_default (gsz d) 0, dayGrowth = or_default (gszzl d) 0,
             netWorth = or_default (dwjz d) 0, time = text_or_empty (gztime d)\<rparr>)"
      by (simp add: getFundEstimate_def fetchRealTimeEstimate_def)
    with assms(6) have "dayGrowth est = or_default (gszzl d) 0" by auto
    then show ?thesis by (simp add: or_default_def js_or_def split: option.splits)
  qed
  have c: "js_or (dayGrowth est) 0 = (case equityReturn p of None \<Rightarrow> 0 | Some g \<Rightarrow> g)"
    if "fetchRealTimeEstimate (live (net i)) ?c = None
          \<and> detail (net i) = OnLoad t g \<and> Data_netWorthTrend g = Some (ps @ [Some p])"
    for t g ps p
  proof -
    from that assms(6) have "dayGrowth est = or_default (equityReturn p) 0"
      by (auto simp: getFundEstimate_def fetchLatestNetWorth_def split: if_splits)
    then show ?thesis by (simp add: or_default_def js_or_def split: option.splits)
  qed
  have e: "hasDayProfit (calculateSummary hs)" if "?hs' ! i \<in> set hs" for hs
    unfolding hasDayProfit_iff using that a by force
  have "?hs' ! i \<in> set ?hs'" using assms(5) len by simp
  then have d: "hasDayProfit (calculateSummary ?hs')" by (rule e)
  from a b c d e show ?thesis by auto
qed

theorem refreshed_holding_has_day_change_witness:
  "\<not> isLoading state_two
   \<and> (lastRefreshTime state_two = 0 \<or> refreshInterval state_two \<le> 1000 - lastRefreshTime state_two)
   \<and> distinct (map code (holdings state_two))
   \<and> length (holdings state_two) = 2
   \<and> getFundEstimate (net_first_ok 0) (code (holdings state_two ! 0)) \<noteq> None
   \<and> getFundEstimate (net_first_ok 1) (code (holdings state_two ! 1)) \<noteq> None
   \<and> getFundEstimate (net_first_ok 0) (code (holdings state_two ! 0)) = Some (Inr estimate_A)
   \<and> dayChange (holdings (final_state (refreshNetValues net_first_ok render_ok 1000 state_two)) ! 0)
       = Some 0
   \<and> hasDayProfit (calculateSummary
        (holdings (final_state (refreshNetValues net_first_ok render_ok 1000 state_two))))"
proof -
  have p: "\<not> isLoading state_two"
    "lastRefreshTime state_two = 0 \<or> refreshInterval state_two \<le> 1000 - lastRefreshTime state_two"
    "distinct (map code (holdings state_two))"
    "\<forall>i<length (holdings state_two).
        getFundEstimate (net_first_ok i) (code (holdings state_two ! i)) \<noteq> None"
    "(0::nat) < length (holdings state_two)"
    "getFundEstimate (net_first_ok 0) (code (holdings state_two ! 0)) = Some (Inr estimate_A)"
    by (simp_all add: example_defs client_defs)
  have q: "length (holdings state_two) = 2"
    "getFundEstimate (net_first_ok 0) (code (holdings state_two ! 0)) \<noteq> None"
    "getFundEstimate (net_first_ok 1) (code (holdings state_two ! 1)) \<noteq> None"
    by (simp_all add: example_defs client_defs)
  note a = refreshed_holding_has_day_change
             [where st = state_two and now = 1000 and net = net_first_ok and i = 0
                and est = estimate_A and rt = render_ok, OF p]
  have "dayChange (holdings (final_state (refreshNetValues net_first_ok render_ok 1000 state_two)) ! 0)
      = Some 0"
    using a[THEN conjunct1] by (simp add: estimate_A_def js_or_def)
  with p(1,2,3,6) q a show ?thesis by blast
qed

text \<open>
  The claim as stated fails when two holdings carry the same code: both fetches succeed,
  and the day change of the second holding is still absent after the refresh.
\<close>

theorem day_change_duplicate_code_counterexample:
  "getFundEstimate (net_all_ok 1) (code (holdings state_duplicate ! 1)) = Some (Inr estimate_A)
   \<and> dayChange (holdings (final_state (refreshNetValues net_all_ok render_ok 1000 state_duplicate)) ! 1)
       = None"
  by (simp add: refresh_defs client_defs example_defs)

end
